theory Spec2Isabelle
  imports Complex_Main
begin

section \<open>Floating-point values\<close>

text \<open>
  Both scripts compute with IEEE doubles. A double is modelled as a finite real or one of
  the three special values: finite arithmetic is exact (no rounding, no overflow, no signed
  zero), the special values follow IEEE 754. numpy arithmetic on a zero divisor yields an
  infinity or NaN (with a warning, never an exception); Python's own float division raises
  ZeroDivisionError.
\<close>

datatype pyfloat = Fin real | PInf | NInf | NaN

datatype py_exn =
    ValueError | ZeroDivisionError | KeyError | IndexError | UnboundLocalError
  | Exception string

fun isnan :: "pyfloat \<Rightarrow> bool" where
  "isnan NaN = True"
| "isnan _ = False"

fun inf_of_sign :: "real \<Rightarrow> pyfloat" where
  "inf_of_sign s = (if 0 < s then PInf else if s < 0 then NInf else NaN)"

fun sign_of :: "pyfloat \<Rightarrow> real" where
  "sign_of (Fin a) = sgn a"
| "sign_of PInf = 1"
| "sign_of NInf = - 1"
| "sign_of NaN = 0"

fun np_neg :: "pyfloat \<Rightarrow> pyfloat" where
  "np_neg (Fin a) = Fin (- a)"
| "np_neg PInf = NInf"
| "np_neg NInf = PInf"
| "np_neg NaN = NaN"

fun np_add :: "pyfloat \<Rightarrow> pyfloat \<Rightarrow> pyfloat" where
  "np_add NaN _ = NaN"
| "np_add _ NaN = NaN"
| "np_add (Fin a) (Fin b) = Fin (a + b)"
| "np_add PInf NInf = NaN"
| "np_add NInf PInf = NaN"
| "np_add PInf _ = PInf"
| "np_add NInf _ = NInf"
| "np_add (Fin a) y = y"

definition np_sub :: "pyfloat \<Rightarrow> pyfloat \<Rightarrow> pyfloat" where
  "np_sub x y = np_add x (np_neg y)"

fun np_mul :: "pyfloat \<Rightarrow> pyfloat \<Rightarrow> pyfloat" where
  "np_mul NaN _ = NaN"
| "np_mul _ NaN = NaN"
| "np_mul (Fin a) (Fin b) = Fin (a * b)"
| "np_mul x y = inf_of_sign (sign_of x * sign_of y)"

fun np_div :: "pyfloat \<Rightarrow> pyfloat \<Rightarrow> pyfloat" where
  "np_div NaN _ = NaN"
| "np_div _ NaN = NaN"
| "np_div (Fin a) (Fin b) = (if b = 0 then inf_of_sign (sgn a) else Fin (a / b))"
| "np_div (Fin a) _ = Fin 0"
| "np_div x (Fin b) = inf_of_sign (sign_of x * (if b < 0 then - 1 else 1))"
| "np_div _ _ = NaN"

fun np_sqrt :: "pyfloat \<Rightarrow> pyfloat" where
  "np_sqrt (Fin a) = (if a < 0 then NaN else Fin (sqrt a))"
| "np_sqrt PInf = PInf"
| "np_sqrt _ = NaN"

fun np_log :: "pyfloat \<Rightarrow> pyfloat" where
  "np_log (Fin a) = (if a < 0 then NaN else if a = 0 then NInf else Fin (ln a))"
| "np_log PInf = PInf"
| "np_log _ = NaN"

text \<open>Python's \<open>x / y\<close> on floats and ints: a zero divisor raises.\<close>

definition py_div :: "pyfloat \<Rightarrow> pyfloat \<Rightarrow> py_exn + pyfloat" where
  "py_div x y = (if y = Fin 0 then Inl ZeroDivisionError else Inr (np_div x y))"

text \<open>Python's \<open>x > 0\<close>: false on NaN.\<close>

fun py_gt0 :: "pyfloat \<Rightarrow> bool" where
  "py_gt0 (Fin a) = (0 < a)"
| "py_gt0 PInf = True"
| "py_gt0 _ = False"

subsection \<open>numpy reductions\<close>

definition np_sum :: "pyfloat list \<Rightarrow> pyfloat" where
  "np_sum xs = foldl np_add (Fin 0) xs"

text \<open>
  \<open>np.mean\<close>: the sum over the count; on an empty array \<open>0 / 0\<close>, that is NaN. The
  sum and the quotient are exact here; numpy rounds each of them, so the mean of several
  equal doubles need not be that double.
\<close>

definition np_mean :: "pyfloat list \<Rightarrow> pyfloat" where
  "np_mean xs = np_div (np_sum xs) (Fin (real (length xs)))"

text \<open>
  \<open>np.std\<close> with its default \<open>ddof = 0\<close>: the root of the mean squared deviation.
  Computed exactly it is zero on every constant series; numpy's rounded value is zero on two
  equal doubles and can be a tiny positive number on a longer constant series. The
  statements below rely on a zero deviation only for series of one or two returns.
\<close>

definition np_std :: "pyfloat list \<Rightarrow> pyfloat" where
  "np_std xs =
     (let m = np_mean xs
      in np_sqrt (np_mean (map (\<lambda>x. np_mul (np_sub x m) (np_sub x m)) xs)))"

text \<open>\<open>np.diff\<close>: consecutive differences, one element shorter than a non-empty input.\<close>

fun np_diff :: "pyfloat list \<Rightarrow> pyfloat list" where
  "np_diff (a # b # r) = np_sub b a # np_diff (b # r)"
| "np_diff _ = []"

subsection \<open>Least-squares line\<close>

text \<open>
  \<open>scipy.stats.linregress x y\<close>, of which the scripts use the slope and the intercept:
  it raises ValueError on inputs of different lengths and on more than one identical \<open>x\<close>
  value; otherwise the slope is the mean cross deviation over the mean squared deviation of
  \<open>x\<close> and the intercept is \<open>mean y - slope * mean x\<close>, both NaN on a single point.
  On empty inputs it raises ValueError here, as older releases of the library do; recent
  releases return NaN there instead.
\<close>

definition linregress :: "pyfloat list \<Rightarrow> pyfloat list \<Rightarrow> py_exn + (pyfloat \<times> pyfloat)" where
  "linregress x y =
     (if x = [] \<or> y = [] then Inl ValueError
      else if length x \<noteq> length y then Inl ValueError
      else if 1 < length x \<and> \<not> isnan (hd x) \<and> list_all (\<lambda>v. v = hd x) x then Inl ValueError
      else
        let xmean = np_mean x;
            ymean = np_mean y;
            ssxm = np_mean (map (\<lambda>a. np_mul (np_sub a xmean) (np_sub a xmean)) x);
            ssxym = np_mean (map (\<lambda>(a, b). np_mul (np_sub a xmean) (np_sub b ymean)) (zip x y));
            slope = np_div ssxym ssxm;
            intercept = np_sub ymean (np_mul slope xmean)
        in Inr (slope, intercept))"

section \<open>FinalBloombergCode.py: portfolio metrics over holding windows\<close>

text \<open>
  A calendar date is a day number. \<open>pd.to_datetime(..., errors = 'coerce')\<close> turns an
  unreadable cell into NaT, here \<open>None\<close>. A price frame is the DataFrame that
  \<open>fetch_bloomberg_data\<close> builds: one row per date, indexed by date, with the single
  column \<open>Adj Close\<close>; its rows are taken to carry pairwise different dates.
\<close>

type_synonym date = int
type_synonym frame = "(date \<times> pyfloat) list"

text \<open>
  Lines 22 to 61 of \<open>fetch_bloomberg_data\<close> talk to the Bloomberg session. They are the
  parameter \<open>blp\<close>: for a ticker and a date range, either the message of the exception
  raised once the session object exists, or the rows received.
\<close>

type_synonym session = "string \<Rightarrow> date \<Rightarrow> date \<Rightarrow> string + frame"

text \<open>
  \<open>fetch_bloomberg_data\<close>: the date check raises ValueError before \<open>session\<close> is
  assigned; the handler returns None, and the \<open>finally\<close> clause then reads the unassigned
  local \<open>session\<close>, so the call ends in UnboundLocalError. Any exception after the session
  was created is caught and the call returns None.
\<close>

definition fetch_bloomberg_data ::
  "session \<Rightarrow> string \<Rightarrow> date option \<Rightarrow> date option \<Rightarrow> py_exn + frame option" where
  "fetch_bloomberg_data blp ticker start_date end_date =
     (case (start_date, end_date) of
        (Some s, Some e) \<Rightarrow>
          (case blp ticker s e of
             Inl msg \<Rightarrow> Inr None
           | Inr df \<Rightarrow> Inr (Some df))
      | _ \<Rightarrow> Inl UnboundLocalError)"

subsection \<open>calculate_metrics\<close>

text \<open>
  \<open>pct_change\<close>: each price over the previous one, minus one; the first row has no
  previous price and gets NaN. \<open>dropna\<close> removes the NaN rows. The session delivers
  \<open>PX_LAST\<close> as floats, so no price of a frame is itself NaN.
\<close>

fun pct_change_from :: "pyfloat \<Rightarrow> frame \<Rightarrow> frame" where
  "pct_change_from prev [] = []"
| "pct_change_from prev ((d, p) # r) =
     (d, np_sub (np_div p prev) (Fin 1)) # pct_change_from p r"

definition pct_change :: "frame \<Rightarrow> frame" where
  "pct_change s = pct_change_from NaN s"

definition dropna :: "frame \<Rightarrow> frame" where
  "dropna s = filter (\<lambda>(d, v). \<not> isnan v) s"

text \<open>
  \<open>pd.concat([a, b], axis = 1)\<close>: the outer join on the date index, a column holding NaN
  on the dates its series lacks; \<open>dropna\<close> on the joined frame keeps the rows with no NaN.
  The joined rows are listed in the order of the first frame, then the dates of the second
  alone; pandas sorts the joined index by date when the two indexes differ. The rows that
  survive \<open>dropna\<close> are the same in either order, and for a first frame in date order
  so is their order; no statement below depends on the order of the rows.
\<close>

definition at_date :: "frame \<Rightarrow> date \<Rightarrow> pyfloat" where
  "at_date s d = (case map_of s d of None \<Rightarrow> NaN | Some v \<Rightarrow> v)"

definition concat_axis1 :: "frame \<Rightarrow> frame \<Rightarrow> (date \<times> pyfloat \<times> pyfloat) list" where
  "concat_axis1 a b =
     map (\<lambda>d. (d, at_date a d, at_date b d))
       (map fst a @ filter (\<lambda>d. d \<notin> set (map fst a)) (map fst b))"

definition dropna_rows :: "(date \<times> pyfloat \<times> pyfloat) list \<Rightarrow> (date \<times> pyfloat \<times> pyfloat) list" where
  "dropna_rows rows = filter (\<lambda>(d, x, y). \<not> isnan x \<and> \<not> isnan y) rows"

text \<open>Lines 72, 73 and 76: the local variables of \<open>calculate_metrics\<close>.\<close>

definition stock_returns :: "frame \<Rightarrow> frame" where
  "stock_returns stock_data = dropna (pct_change stock_data)"

definition market_returns :: "frame \<Rightarrow> frame" where
  "market_returns market_data = dropna (pct_change market_data)"

definition returns_data :: "frame \<Rightarrow> frame \<Rightarrow> (date \<times> pyfloat \<times> pyfloat) list" where
  "returns_data stock_data market_data =
     dropna_rows (concat_axis1 (stock_returns stock_data) (market_returns market_data))"

text \<open>Lines 89 and 90, on the aligned stock column.\<close>

definition excess_returns :: "pyfloat list \<Rightarrow> pyfloat list" where
  "excess_returns rs = map (\<lambda>r. np_sub r (Fin (3 / 100 / 252))) rs"

definition sharpe_ratio :: "pyfloat list \<Rightarrow> pyfloat" where
  "sharpe_ratio rs =
     np_mul (np_div (np_mean (excess_returns rs)) (np_std (excess_returns rs)))
       (Fin (sqrt 252))"

text \<open>
  \<open>calculate_metrics\<close> returns the triple \<open>(None, None, None)\<close>, here \<open>None\<close>, when the
  aligned frame is empty or when anything raised; otherwise (alpha, beta, Sharpe ratio).
\<close>

definition calculate_metrics :: "frame \<Rightarrow> frame \<Rightarrow> (pyfloat \<times> pyfloat \<times> pyfloat) option" where
  "calculate_metrics stock_data market_data =
     (let rd = returns_data stock_data market_data
      in if rd = [] then None
         else
           let sr = map (\<lambda>(d, x, y). x) rd;
               mr = map (\<lambda>(d, x, y). y) rd
           in case linregress mr sr of
                Inl e \<Rightarrow> None
              | Inr (slope, intercept) \<Rightarrow> Some (intercept, slope, sharpe_ratio sr))"

subsection \<open>The batch loop and the portfolio averages\<close>

record state =
  portfolio_alpha :: pyfloat
  portfolio_beta :: pyfloat
  portfolio_sharpe_ratio :: pyfloat
  num_stocks_processed :: nat
  results :: "(string \<times> pyfloat \<times> pyfloat \<times> pyfloat) list"
  error_log :: "string list"

definition initial_state :: state where
  "initial_state =
     \<lparr>portfolio_alpha = Fin 0, portfolio_beta = Fin 0, portfolio_sharpe_ratio = Fin 0,
      num_stocks_processed = 0, results = [], error_log = []\<rparr>"

text \<open>One line written to \<open>error_tickers.txt\<close>.\<close>

definition could_not_process :: "string \<Rightarrow> string \<Rightarrow> string" where
  "could_not_process ticker reason =
     ''Could not process '' @ ticker @ '': '' @ reason @ [CHR 0x0A]"

definition log_error :: "state \<Rightarrow> string \<Rightarrow> string \<Rightarrow> state" where
  "log_error st ticker reason =
     st\<lparr>error_log := error_log st @ [could_not_process ticker reason]\<rparr>"

text \<open>Lines 138 to 144: the running totals, the counter and the result row.\<close>

definition record_success :: "state \<Rightarrow> string \<Rightarrow> pyfloat \<Rightarrow> pyfloat \<Rightarrow> pyfloat \<Rightarrow> state" where
  "record_success st ticker alpha beta sharpe =
     st\<lparr>portfolio_alpha := np_add (portfolio_alpha st) alpha,
        portfolio_beta := np_add (portfolio_beta st) beta,
        portfolio_sharpe_ratio := np_add (portfolio_sharpe_ratio st) sharpe,
        num_stocks_processed := num_stocks_processed st + 1,
        results := results st @ [(ticker, alpha, beta, sharpe)]\<rparr>"

text \<open>
  The body of the \<open>for\<close> loop (lines 111 to 151) on one row (ticker, purchase date, sale
  date); \<open>today\<close> is \<open>date.today()\<close>. \<open>Inl\<close> is an exception leaving the loop.
\<close>

definition loop_body ::
  "session \<Rightarrow> date \<Rightarrow> state \<Rightarrow> string \<times> date option \<times> date option \<Rightarrow> py_exn + state" where
  "loop_body blp today st row =
     (case row of (ticker, purchase_date, sell_date0) \<Rightarrow>
        if purchase_date = None then Inr (log_error st ticker ''Invalid purchase date format.'')
        else
          let sell_date = (if sell_date0 = None then Some today else sell_date0)
          in case fetch_bloomberg_data blp ticker purchase_date sell_date of
               Inl e \<Rightarrow> Inl e
             | Inr stock_data \<Rightarrow>
                 if stock_data = None \<or> stock_data = Some []
                 then Inr (log_error st ticker ''Error fetching stock data.'')
                 else
                   case fetch_bloomberg_data blp ''UKX Index'' purchase_date sell_date of
                     Inl e \<Rightarrow> Inl e
                   | Inr market_data \<Rightarrow>
                       if market_data = None \<or> market_data = Some []
                       then Inr (log_error st ticker ''Error fetching market data.'')
                       else
                         case calculate_metrics (the stock_data) (the market_data) of
                           None \<Rightarrow> Inr (log_error st ticker ''Error calculating metrics.'')
                         | Some (alpha, beta, sharpe) \<Rightarrow>
                             Inr (record_success st ticker alpha beta sharpe))"

fun batch_loop ::
  "session \<Rightarrow> date \<Rightarrow> state \<Rightarrow> (string \<times> date option \<times> date option) list \<Rightarrow> py_exn + state" where
  "batch_loop blp today st [] = Inr st"
| "batch_loop blp today st (row # rows) =
     (case loop_body blp today st row of
        Inl e \<Rightarrow> Inl e
      | Inr st' \<Rightarrow> batch_loop blp today st' rows)"

text \<open>Lines 154 to 157; the three fields are what lines 161 to 163 print.\<close>

definition finalization :: "state \<Rightarrow> state" where
  "finalization st =
     (if 0 < num_stocks_processed st
      then st\<lparr>portfolio_alpha :=
                 np_div (portfolio_alpha st) (Fin (real (num_stocks_processed st))),
               portfolio_beta :=
                 np_div (portfolio_beta st) (Fin (real (num_stocks_processed st))),
               portfolio_sharpe_ratio :=
                 np_div (portfolio_sharpe_ratio st) (Fin (real (num_stocks_processed st)))\<rparr>
      else st)"

text \<open>The script from line 98 on, for the rows read from the spreadsheet.\<close>

definition portfolio_run ::
  "session \<Rightarrow> date \<Rightarrow> (string \<times> date option \<times> date option) list \<Rightarrow> py_exn + state" where
  "portfolio_run blp today rows =
     (case batch_loop blp today initial_state rows of
        Inl e \<Rightarrow> Inl e
      | Inr st \<Rightarrow> Inr (finalization st))"

section \<open>EventTradesAnalysis.py: merger arbitrage analysis\<close>

text \<open>
  \<open>get_bloomberg_data\<close> is session traffic from its first line to its last. It is the
  parameter \<open>gbd\<close>: for the tickers, the fields and a date range, either the exception it
  raises or the dictionary it returns, from ticker to the (date, price) entries in the order
  they were inserted.
\<close>

type_synonym bloomberg =
  "string list \<Rightarrow> string list \<Rightarrow> date \<Rightarrow> date \<Rightarrow> py_exn + (string \<times> (date \<times> pyfloat) list) list"

text \<open>Line 64, on the returns of line 59.\<close>

definition excess_return :: "pyfloat list \<Rightarrow> pyfloat \<Rightarrow> pyfloat list" where
  "excess_return rs risk_free_rate = map (\<lambda>r. np_sub r (np_div risk_free_rate (Fin 252))) rs"

definition calculate_alpha_beta_sharpe ::
  "pyfloat list \<Rightarrow> pyfloat list \<Rightarrow> pyfloat \<Rightarrow> py_exn + (pyfloat \<times> pyfloat \<times> pyfloat)" where
  "calculate_alpha_beta_sharpe stock_prices market_prices risk_free_rate =
     (let sr = np_diff (map np_log stock_prices);
          mr = np_diff (map np_log market_prices)
      in case linregress mr sr of
           Inl e \<Rightarrow> Inl e
         | Inr (beta, alpha) \<Rightarrow>
             Inr (alpha, beta, np_div (np_mean (excess_return sr risk_free_rate)) (np_std sr)))"

text \<open>The dictionary returned by \<open>merger_arbitrage_analysis_bloomberg\<close>.\<close>

record analysis =
  Target :: string
  Current_Target_Price :: pyfloat
  Deal_Price :: pyfloat
  Arbitrage_Spread :: pyfloat
  Annualized_Return :: "pyfloat option"
  Alpha :: pyfloat
  Beta :: pyfloat
  Sharpe_Ratio :: pyfloat

text \<open>
  \<open>today\<close> is \<open>datetime.date.today()\<close>. The deal price is a Python float read from the
  row, the days to close a Python int: dividing by either raises when it is zero.
\<close>

definition merger_arbitrage_analysis_bloomberg ::
  "bloomberg \<Rightarrow> date \<Rightarrow> string \<Rightarrow> pyfloat \<Rightarrow> date \<Rightarrow> string \<Rightarrow> py_exn + analysis" where
  "merger_arbitrage_analysis_bloomberg gbd today target_ticker deal_price expected_close_date
       market_ticker =
     (let start_date = today - 365; end_date = today
      in case gbd [target_ticker] [''PX_LAST''] start_date end_date of
           Inl e \<Rightarrow> Inl e
         | Inr stock_data \<Rightarrow>
         case gbd [market_ticker] [''PX_LAST''] start_date end_date of
           Inl e \<Rightarrow> Inl e
         | Inr market_data \<Rightarrow>
         case map_of stock_data target_ticker of
           None \<Rightarrow> Inl KeyError
         | Some stock_dict \<Rightarrow>
         case map_of market_data market_ticker of
           None \<Rightarrow> Inl KeyError
         | Some market_dict \<Rightarrow>
         let stock_prices = map snd stock_dict; market_prices = map snd market_dict
         in case calculate_alpha_beta_sharpe stock_prices market_prices (Fin (3 / 100)) of
           Inl e \<Rightarrow> Inl e
         | Inr (alpha, beta, sharpe) \<Rightarrow>
         if stock_prices = [] then Inl IndexError
         else
         let current_target_price = last stock_prices
         in case py_div (np_sub deal_price current_target_price) deal_price of
           Inl e \<Rightarrow> Inl e
         | Inr q \<Rightarrow>
         let arbitrage_spread = np_mul q (Fin 100);
             days_to_close = expected_close_date - today;
             report = \<lparr>Target = target_ticker, Current_Target_Price = current_target_price,
                       Deal_Price = deal_price, Arbitrage_Spread = arbitrage_spread,
                       Annualized_Return = None, Alpha = alpha, Beta = beta,
                       Sharpe_Ratio = sharpe\<rparr>
         in if py_gt0 arbitrage_spread
            then (case py_div arbitrage_spread (Fin (real_of_int days_to_close)) of
                    Inl e \<Rightarrow> Inl e
                  | Inr r \<Rightarrow> Inr (report\<lparr>Annualized_Return := Some (np_mul r (Fin 365))\<rparr>))
            else Inr report)"

text \<open>
  One spreadsheet row; of its columns the loop reads the ticker, the deal price (here
  \<open>Deal_Price_cell\<close>) and the sale date, which is taken to hold a date, and never the
  purchase date. The loop of \<open>merger_arbitrage_from_excel\<close> has no handler: an
  exception in one row leaves the function.
\<close>

record row =
  Ticker :: string
  Buy_Date :: date
  Sell_Date :: date
  Deal_Price_cell :: pyfloat

fun analysis_loop ::
  "bloomberg \<Rightarrow> date \<Rightarrow> string \<Rightarrow> analysis list \<Rightarrow> row list \<Rightarrow> py_exn + analysis list" where
  "analysis_loop gbd today market_ticker acc [] = Inr acc"
| "analysis_loop gbd today market_ticker acc (r # rs) =
     (case merger_arbitrage_analysis_bloomberg gbd today (Ticker r) (Deal_Price_cell r)
             (Sell_Date r) market_ticker of
        Inl e \<Rightarrow> Inl e
      | Inr result \<Rightarrow> analysis_loop gbd today market_ticker (acc @ [result]) rs)"

definition merger_arbitrage_from_excel ::
  "bloomberg \<Rightarrow> date \<Rightarrow> row list \<Rightarrow> string \<Rightarrow> py_exn + analysis list" where
  "merger_arbitrage_from_excel gbd today stock_data market_ticker =
     analysis_loop gbd today market_ticker [] stock_data"

section \<open>Predicates of the statements\<close>

text \<open>
  The counter is the number of result rows and each running total is the sum of its column
  of the result rows, added in the order of appending as the loop adds them.
\<close>

definition totals_match :: "state \<Rightarrow> bool" where
  "totals_match st \<longleftrightarrow>
     num_stocks_processed st = length (results st) \<and>
     portfolio_alpha st = foldl np_add (Fin 0) (map (\<lambda>(t, a, b, s). a) (results st)) \<and>
     portfolio_beta st = foldl np_add (Fin 0) (map (\<lambda>(t, a, b, s). b) (results st)) \<and>
     portfolio_sharpe_ratio st = foldl np_add (Fin 0) (map (\<lambda>(t, a, b, s). s) (results st))"

text \<open>
  Every price of a frame, or of a list of prices, is a positive finite number, as the price
  points of the specification are.
\<close>

definition priced :: "frame \<Rightarrow> bool" where
  "priced s \<longleftrightarrow> list_all (\<lambda>(d, p). case p of Fin x \<Rightarrow> 0 < x | _ \<Rightarrow> False) s"

definition positive_prices :: "pyfloat list \<Rightarrow> bool" where
  "positive_prices ps \<longleftrightarrow> list_all (\<lambda>p. case p of Fin x \<Rightarrow> 0 < x | _ \<Rightarrow> False) ps"

section \<open>The two return transforms of the specification\<close>



section \<open>Inputs for the worked examples\<close>

text \<open>
  A session that knows two stocks and the market index and fails on every other ticker, and
  a sheet of three positions of which the second cannot be fetched; the third has no sale
  date.
\<close>

definition example_session :: session where
  "example_session ticker s e =
     (if ticker = ''AAA'' then Inr [(1, Fin 1000), (2, Fin 1001), (3, Fin 1001)]
      else if ticker = ''CCC'' then Inr [(1, Fin 1000), (2, Fin 1003), (3, Fin 1003)]
      else if ticker = ''UKX Index'' then Inr [(1, Fin 100), (2, Fin 100), (3, Fin 110)]
      else Inl ''Failed to start Bloomberg session.'')"

definition example_rows :: "(string \<times> date option \<times> date option) list" where
  "example_rows = [(''AAA'', Some 1, Some 3), (''BBB'', Some 1, Some 3), (''CCC'', Some 1, None)]"

text \<open>
  A provider for the merger script with two targets and the market index, failing on every
  other request, and a sheet of three deals of which the second cannot be fetched.
\<close>

definition example_bloomberg :: bloomberg where
  "example_bloomberg tickers flds s e =
     (if tickers = [''AAA''] then Inr [(''AAA'', [(1, Fin 80), (2, Fin 85), (3, Fin 90)])]
      else if tickers = [''CCC''] then Inr [(''CCC'', [(1, Fin 50), (2, Fin 50), (3, Fin 50)])]
      else if tickers = [''SPX Index'']
        then Inr [(''SPX Index'', [(1, Fin 1), (2, Fin 1), (3, Fin 2)])]
      else Inl (Exception ''Failed to start Bloomberg session.''))"

definition example_deals :: "row list" where
  "example_deals =
     [\<lparr>Ticker = ''AAA'', Buy_Date = - 30, Sell_Date = 73, Deal_Price_cell = Fin 100\<rparr>,
      \<lparr>Ticker = ''BBB'', Buy_Date = - 30, Sell_Date = 73, Deal_Price_cell = Fin 100\<rparr>,
      \<lparr>Ticker = ''CCC'', Buy_Date = - 30, Sell_Date = 73, Deal_Price_cell = Fin 100\<rparr>]"

text \<open>
  The example session and the example provider cut down to one date range: any request for
  another range raises.
\<close>

definition session_window_only :: "date \<Rightarrow> date \<Rightarrow> session" where
  "session_window_only lo hi ticker s e =
     (if s = lo \<and> e = hi then example_session ticker s e
      else Inl ''No data outside the window.'')"

definition window_only :: "date \<Rightarrow> date \<Rightarrow> bloomberg" where
  "window_only lo hi tickers flds s e =
     (if s = lo \<and> e = hi then example_bloomberg tickers flds s e
      else Inl (Exception ''No data outside the window.''))"

section \<open>The batch loop of FinalBloombergCode.py\<close>

subsection \<open>What one row does to the state\<close>

lemma fetch_with_dates:
  "fetch_bloomberg_data blp ticker (Some s) (Some e) =
     Inr (case blp ticker s e of Inl msg \<Rightarrow> None | Inr df \<Rightarrow> Some df)"
  by (simp add: fetch_bloomberg_data_def split: sum.splits)

text \<open>The loop body on a row without and with a purchase date, branch by branch.\<close>

lemma loop_body_undated:
  "loop_body blp today st (t, None, s) = Inr (log_error st t ''Invalid purchase date format.'')"
  by (simp add: loop_body_def)

lemma loop_body_dated:
  "loop_body blp today st (t, Some p, s) =
     (case blp t p (case s of None \<Rightarrow> today | Some d \<Rightarrow> d) of
        Inl msg \<Rightarrow> Inr (log_error st t ''Error fetching stock data.'')
      | Inr sdf \<Rightarrow>
          if sdf = [] then Inr (log_error st t ''Error fetching stock data.'')
          else
            case blp ''UKX Index'' p (case s of None \<Rightarrow> today | Some d \<Rightarrow> d) of
              Inl msg \<Rightarrow> Inr (log_error st t ''Error fetching market data.'')
            | Inr mdf \<Rightarrow>
                if mdf = [] then Inr (log_error st t ''Error fetching market data.'')
                else
                  case calculate_metrics sdf mdf of
                    None \<Rightarrow> Inr (log_error st t ''Error calculating metrics.'')
                  | Some (a, b, sh) \<Rightarrow> Inr (record_success st t a b sh))"
  by (cases s) (simp_all add: loop_body_def fetch_with_dates Let_def split: sum.splits)

text \<open>
  Whatever the state, a row either writes one line to the error log or records one result;
  which of the two, and with what values, does not depend on the state.
\<close>

lemma loop_body_outcome:
  "(\<exists>reason. \<forall>st. loop_body blp today st (t, p, s) = Inr (log_error st t reason)) \<or>
   (\<exists>a b sh. \<forall>st. loop_body blp today st (t, p, s) = Inr (record_success st t a b sh))"
proof (cases p)
  case None
  then have "\<forall>st. loop_body blp today st (t, p, s) =
      Inr (log_error st t ''Invalid purchase date format.'')"
    by (simp add: loop_body_def)
  then show ?thesis by blast
next
  case (Some pd)
  define e where "e = (case s of None \<Rightarrow> today | Some d \<Rightarrow> d)"
  define sd where "sd = (case blp t pd e of Inl msg \<Rightarrow> None | Inr df \<Rightarrow> Some df)"
  define md where "md = (case blp ''UKX Index'' pd e of Inl msg \<Rightarrow> None | Inr df \<Rightarrow> Some df)"
  have body: "loop_body blp today st (t, p, s) =
      (if sd = None \<or> sd = Some [] then Inr (log_error st t ''Error fetching stock data.'')
       else if md = None \<or> md = Some []
         then Inr (log_error st t ''Error fetching market data.'')
       else case calculate_metrics (the sd) (the md) of
              None \<Rightarrow> Inr (log_error st t ''Error calculating metrics.'')
            | Some (a, b, sh) \<Rightarrow> Inr (record_success st t a b sh))" for st
    by (cases s)
      (simp_all add: loop_body_def Some fetch_with_dates sd_def md_def e_def Let_def
         split: option.splits)
  show ?thesis
  proof (cases "sd = None \<or> sd = Some []")
    case True
    then have "\<forall>st. loop_body blp today st (t, p, s) =
        Inr (log_error st t ''Error fetching stock data.'')"
      by (auto simp: body)
    then show ?thesis by blast
  next
    case sdok: False
    show ?thesis
    proof (cases "md = None \<or> md = Some []")
      case True
      with sdok have "\<forall>st. loop_body blp today st (t, p, s) =
          Inr (log_error st t ''Error fetching market data.'')"
        by (auto simp: body)
      then show ?thesis by blast
    next
      case mdok: False
      show ?thesis
      proof (cases "calculate_metrics (the sd) (the md)")
        case None
        with sdok mdok have "\<forall>st. loop_body blp today st (t, p, s) =
            Inr (log_error st t ''Error calculating metrics.'')"
          by (auto simp: body)
        then show ?thesis by blast
      next
        case (Some m)
        obtain a b sh where m: "m = (a, b, sh)" by (cases m) auto
        with Some sdok mdok
        have "\<forall>st. loop_body blp today st (t, p, s) = Inr (record_success st t a b sh)"
          by (auto simp: body)
        then show ?thesis by blast
      qed
    qed
  qed
qed

lemma loop_body_total: "\<exists>st'. loop_body blp today st row = Inr st'"
  using loop_body_outcome [of blp today "fst row" "fst (snd row)" "snd (snd row)"] by auto

lemma loop_body_single:
  "\<exists>st' s1. loop_body blp today st row = Inr st' \<and>
     loop_body blp today initial_state row = Inr s1 \<and>
     results st' = results st @ results s1 \<and> error_log st' = error_log st @ error_log s1 \<and>
     ((\<exists>reason. results s1 = [] \<and> error_log s1 = [could_not_process (fst row) reason]) \<or>
      (\<exists>a b sh. results s1 = [(fst row, a, b, sh)] \<and> error_log s1 = []))"
  using loop_body_outcome [of blp today "fst row" "fst (snd row)" "snd (snd row)"]
  by (auto simp: log_error_def record_success_def initial_state_def)

subsection \<open>The totals follow the result rows\<close>

lemma totals_match_initial: "totals_match initial_state"
  by (simp add: totals_match_def initial_state_def)

lemma totals_match_log_error: "totals_match st \<Longrightarrow> totals_match (log_error st t reason)"
  by (simp add: totals_match_def log_error_def)

lemma totals_match_record_success:
  "totals_match st \<Longrightarrow> totals_match (record_success st t a b sh)"
  by (simp add: totals_match_def record_success_def)

lemma loop_body_totals_match:
  "totals_match st \<Longrightarrow> loop_body blp today st row = Inr st' \<Longrightarrow> totals_match st'"
  using loop_body_outcome [of blp today "fst row" "fst (snd row)" "snd (snd row)"]
  by (auto simp: totals_match_log_error totals_match_record_success)

lemma batch_loop_totals_match:
  "totals_match st \<Longrightarrow> \<exists>st'. batch_loop blp today st rows = Inr st' \<and> totals_match st'"
proof (induction rows arbitrary: st)
  case Nil
  then show ?case by simp
next
  case (Cons row rows)
  obtain st1 where st1: "loop_body blp today st row = Inr st1"
    using loop_body_total by blast
  with Cons.prems have "totals_match st1" by (rule loop_body_totals_match)
  from Cons.IH [OF this] st1 show ?case by simp
qed

lemma portfolio_run_batch:
  "\<exists>st0. batch_loop blp today initial_state rows = Inr st0 \<and> totals_match st0 \<and>
     portfolio_run blp today rows = Inr (finalization st0)"
  using batch_loop_totals_match [OF totals_match_initial, of blp today rows]
  by (auto simp: portfolio_run_def)

subsection \<open>The batch is the rows one by one\<close>

lemma batch_loop_appends:
  "\<exists>st'. batch_loop blp today st rows = Inr st' \<and>
     results st' = results st @
       concat (map (\<lambda>r. case batch_loop blp today initial_state [r] of
                           Inl e \<Rightarrow> [] | Inr s \<Rightarrow> results s) rows) \<and>
     error_log st' = error_log st @
       concat (map (\<lambda>r. case batch_loop blp today initial_state [r] of
                           Inl e \<Rightarrow> [] | Inr s \<Rightarrow> error_log s) rows) \<and>
     length (results st') + length (error_log st') =
       length (results st) + length (error_log st) + length rows"
proof (induction rows arbitrary: st)
  case Nil
  then show ?case by simp
next
  case (Cons row rows)
  obtain st1 s1 where st1: "loop_body blp today st row = Inr st1"
      and s1: "loop_body blp today initial_state row = Inr s1"
      and r: "results st1 = results st @ results s1"
      and e: "error_log st1 = error_log st @ error_log s1"
      and one: "(\<exists>reason. results s1 = [] \<and> error_log s1 = [could_not_process (fst row) reason]) \<or>
                (\<exists>a b sh. results s1 = [(fst row, a, b, sh)] \<and> error_log s1 = [])"
    using loop_body_single by blast
  from one have one': "length (results s1) + length (error_log s1) = 1" by auto
  from Cons.IH [of st1] obtain st' where st': "batch_loop blp today st1 rows = Inr st'"
    and r': "results st' = results st1 @
       concat (map (\<lambda>r. case batch_loop blp today initial_state [r] of
                           Inl e \<Rightarrow> [] | Inr s \<Rightarrow> results s) rows)"
    and e': "error_log st' = error_log st1 @
       concat (map (\<lambda>r. case batch_loop blp today initial_state [r] of
                           Inl e \<Rightarrow> [] | Inr s \<Rightarrow> error_log s) rows)"
    and l': "length (results st') + length (error_log st') =
       length (results st1) + length (error_log st1) + length rows"
    by blast
  show ?case
    using st1 s1 st' r e one' r' e' l' by simp
qed

subsection \<open>The worked example, row by row\<close>

lemmas metrics_eval =
  calculate_metrics_def returns_data_def stock_returns_def market_returns_def dropna_def
  pct_change_def concat_axis1_def dropna_rows_def at_date_def np_sub_def linregress_def
  np_mean_def np_sum_def sharpe_ratio_def excess_returns_def np_std_def Let_def

lemma example_AAA_metrics:
  "calculate_metrics [(1, Fin 1000), (2, Fin 1001), (3, Fin 1001)]
       [(1, Fin 100), (2, Fin 100), (3, Fin 110)] =
     Some (Fin (1 / 1000), Fin (- (1 / 100)), Fin (sqrt 252 / (2625 * sqrt (1 / 4000000))))"
  by (simp add: metrics_eval)

lemma example_CCC_metrics:
  "calculate_metrics [(1, Fin 1000), (2, Fin 1003), (3, Fin 1003)]
       [(1, Fin 100), (2, Fin 100), (3, Fin 110)] =
     Some (Fin (3 / 1000), Fin (- (3 / 100)),
           Fin (29 * sqrt 252 / (21000 * sqrt (9 / 4000000))))"
  by (simp add: metrics_eval)

lemma example_loop_AAA:
  "loop_body example_session today st (''AAA'', Some 1, Some 3) =
     Inr (record_success st ''AAA'' (Fin (1 / 1000)) (Fin (- (1 / 100)))
            (Fin (sqrt 252 / (2625 * sqrt (1 / 4000000)))))"
  by (simp add: loop_body_def fetch_bloomberg_data_def example_session_def example_AAA_metrics)

lemma example_loop_BBB:
  "loop_body example_session today st (''BBB'', Some 1, Some 3) =
     Inr (log_error st ''BBB'' ''Error fetching stock data.'')"
  by (simp add: loop_body_def fetch_bloomberg_data_def example_session_def)

lemma example_loop_CCC:
  "loop_body example_session today st (''CCC'', Some 1, None) =
     Inr (record_success st ''CCC'' (Fin (3 / 1000)) (Fin (- (3 / 100)))
            (Fin (29 * sqrt 252 / (21000 * sqrt (9 / 4000000)))))"
  by (simp add: loop_body_def fetch_bloomberg_data_def example_session_def example_CCC_metrics)

lemmas example_loops = example_loop_AAA example_loop_BBB example_loop_CCC

section \<open>Claims about the batch\<close>

text \<open>
  C10. After every number of processed requests the success counter is the number of result
  rows and each portfolio total is the sum, in order of appending, of its field over the
  result rows; a request that adds a line to the error log leaves the counter, the three
  totals and the result rows as they were.
\<close>

theorem C10_totals_track_results:
  "(\<exists>st. batch_loop blp today initial_state (take n rows) = Inr st \<and>
      num_stocks_processed st = length (results st) \<and>
      portfolio_alpha st = foldl np_add (Fin 0) (map (\<lambda>(t, a, b, s). a) (results st)) \<and>
      portfolio_beta st = foldl np_add (Fin 0) (map (\<lambda>(t, a, b, s). b) (results st)) \<and>
      portfolio_sharpe_ratio st =
        foldl np_add (Fin 0) (map (\<lambda>(t, a, b, s). s) (results st))) \<and>
   (\<forall>s row s'. loop_body blp today s row = Inr s' \<and> error_log s' \<noteq> error_log s \<longrightarrow>
      num_stocks_processed s' = num_stocks_processed s \<and>
      portfolio_alpha s' = portfolio_alpha s \<and>
      portfolio_beta s' = portfolio_beta s \<and>
      portfolio_sharpe_ratio s' = portfolio_sharpe_ratio s \<and>
      results s' = results s)"
proof
  from batch_loop_totals_match [OF totals_match_initial, of blp today "take n rows"]
  show "\<exists>st. batch_loop blp today initial_state (take n rows) = Inr st \<and>
      num_stocks_processed st = length (results st) \<and>
      portfolio_alpha st = foldl np_add (Fin 0) (map (\<lambda>(t, a, b, s). a) (results st)) \<and>
      portfolio_beta st = foldl np_add (Fin 0) (map (\<lambda>(t, a, b, s). b) (results st)) \<and>
      portfolio_sharpe_ratio st =
        foldl np_add (Fin 0) (map (\<lambda>(t, a, b, s). s) (results st))"
    by (simp add: totals_match_def)
next
  show "\<forall>s row s'. loop_body blp today s row = Inr s' \<and> error_log s' \<noteq> error_log s \<longrightarrow>
      num_stocks_processed s' = num_stocks_processed s \<and>
      portfolio_alpha s' = portfolio_alpha s \<and>
      portfolio_beta s' = portfolio_beta s \<and>
      portfolio_sharpe_ratio s' = portfolio_sharpe_ratio s \<and>
      results s' = results s"
  proof (intro allI impI)
    fix s row s'
    assume h: "loop_body blp today s row = Inr s' \<and> error_log s' \<noteq> error_log s"
    from loop_body_outcome [of blp today "fst row" "fst (snd row)" "snd (snd row)"] h
    show "num_stocks_processed s' = num_stocks_processed s \<and>
      portfolio_alpha s' = portfolio_alpha s \<and>
      portfolio_beta s' = portfolio_beta s \<and>
      portfolio_sharpe_ratio s' = portfolio_sharpe_ratio s \<and>
      results s' = results s"
      by (auto simp: log_error_def record_success_def)
  qed
qed

theorem C10_totals_track_results_witness:
  "(\<exists>st. batch_loop example_session 3 initial_state (take 2 example_rows) = Inr st \<and>
      num_stocks_processed st = 1 \<and> length (results st) = 1 \<and>
      portfolio_alpha st = Fin (1 / 1000) \<and> portfolio_beta st = Fin (- (1 / 100))) \<and>
   loop_body example_session 3 initial_state (''BBB'', Some 1, Some 3) =
      Inr (log_error initial_state ''BBB'' ''Error fetching stock data.'') \<and>
   error_log (log_error initial_state ''BBB'' ''Error fetching stock data.'') \<noteq>
      error_log initial_state \<and>
   num_stocks_processed (log_error initial_state ''BBB'' ''Error fetching stock data.'') = 0 \<and>
   results (log_error initial_state ''BBB'' ''Error fetching stock data.'') = []"
  using C10_totals_track_results [of example_session 3 2 example_rows]
  by (simp add: example_rows_def example_loops record_success_def log_error_def
        initial_state_def)

text \<open>
  C2, as the script computes it. The portfolio figures printed at the end are the
  accumulated sums over the count when the count is positive, the sums being those of the
  result rows; with no successful position they are the initial 0.0.
\<close>

theorem C2_portfolio_averages:
  "\<exists>st0 st. batch_loop blp today initial_state rows = Inr st0 \<and>
     portfolio_run blp today rows = Inr st \<and>
     results st = results st0 \<and>
     num_stocks_processed st = length (results st) \<and>
     (0 < num_stocks_processed st \<longrightarrow>
        portfolio_alpha st = np_div (portfolio_alpha st0) (Fin (real (num_stocks_processed st))) \<and>
        portfolio_beta st = np_div (portfolio_beta st0) (Fin (real (num_stocks_processed st))) \<and>
        portfolio_sharpe_ratio st =
          np_div (portfolio_sharpe_ratio st0) (Fin (real (num_stocks_processed st))) \<and>
        portfolio_alpha st0 = foldl np_add (Fin 0) (map (\<lambda>(t, a, b, s). a) (results st)) \<and>
        portfolio_beta st0 = foldl np_add (Fin 0) (map (\<lambda>(t, a, b, s). b) (results st)) \<and>
        portfolio_sharpe_ratio st0 =
          foldl np_add (Fin 0) (map (\<lambda>(t, a, b, s). s) (results st))) \<and>
     (num_stocks_processed st = 0 \<longrightarrow>
        portfolio_alpha st = Fin 0 \<and> portfolio_beta st = Fin 0 \<and>
        portfolio_sharpe_ratio st = Fin 0)"
proof -
  obtain st0 where b: "batch_loop blp today initial_state rows = Inr st0"
      and t: "totals_match st0"
      and p: "portfolio_run blp today rows = Inr (finalization st0)"
    using portfolio_run_batch by blast
  show ?thesis
    using b t p by (auto simp: finalization_def totals_match_def)
qed

text \<open>
  Two successful positions with alpha 0.001 and 0.003 average to 0.002; a sheet whose only
  position fails has count zero and the figure 0.0.
\<close>

theorem C2_portfolio_averages_witness:
  "(\<exists>st. portfolio_run example_session 3 [(''AAA'', Some 1, Some 3), (''CCC'', Some 1, None)] =
          Inr st \<and>
      num_stocks_processed st = 2 \<and> portfolio_alpha st = Fin (2 / 1000)) \<and>
   (\<exists>st. portfolio_run example_session 3 [(''BBB'', Some 1, Some 3)] = Inr st \<and>
      num_stocks_processed st = 0 \<and> portfolio_alpha st = Fin 0)"
  using
    C2_portfolio_averages [of example_session 3
      "[(''AAA'', Some 1, Some 3), (''CCC'', Some 1, None)]"]
    C2_portfolio_averages [of example_session 3 "[(''BBB'', Some 1, Some 3)]"]
  by (auto simp add: example_loops record_success_def log_error_def initial_state_def)

text \<open>
  Against C2 as the specification words it: with no successful position the portfolio
  figures are not absent, they are the number zero.
\<close>

theorem C2_zero_count_counterexample:
  "portfolio_run example_session 3 [(''BBB'', Some 1, Some 3)] =
     Inr \<lparr>portfolio_alpha = Fin 0, portfolio_beta = Fin 0, portfolio_sharpe_ratio = Fin 0,
          num_stocks_processed = 0, results = [],
          error_log = [could_not_process ''BBB'' ''Error fetching stock data.'']\<rparr>"
  by (simp add: portfolio_run_def example_loop_BBB finalization_def log_error_def
        initial_state_def)

section \<open>The merger script\<close>

subsection \<open>When the regression returns\<close>

lemma linregress_Inr_nonempty:
  "linregress x y = Inr r \<Longrightarrow> x \<noteq> [] \<and> y \<noteq> [] \<and> length x = length y"
  by (auto simp: linregress_def Let_def split: if_splits)

lemma calculate_alpha_beta_sharpe_prices:
  "calculate_alpha_beta_sharpe sp mp rf = Inr r \<Longrightarrow> sp \<noteq> []"
  by (auto simp: calculate_alpha_beta_sharpe_def Let_def split: sum.splits
        dest!: linregress_Inr_nonempty)

text \<open>The report once both fetches and the metrics have succeeded.\<close>

lemma analysis_after_metrics:
  assumes "gbd [target] [''PX_LAST''] (today - 365) today = Inr sdata"
    and "gbd [market] [''PX_LAST''] (today - 365) today = Inr mdata"
    and "map_of sdata target = Some sdict"
    and "map_of mdata market = Some mdict"
    and "calculate_alpha_beta_sharpe (map snd sdict) (map snd mdict) (Fin (3 / 100)) =
           Inr (alpha, beta, sharpe)"
    and "last (map snd sdict) = Fin cur"
    and "deal \<noteq> 0"
  shows "merger_arbitrage_analysis_bloomberg gbd today target (Fin deal) close market =
     (let spread = (deal - cur) / deal * 100;
          report = \<lparr>Target = target, Current_Target_Price = Fin cur, Deal_Price = Fin deal,
                    Arbitrage_Spread = Fin spread, Annualized_Return = None,
                    Alpha = alpha, Beta = beta, Sharpe_Ratio = sharpe\<rparr>
      in if 0 < spread
         then if close - today = 0 then Inl ZeroDivisionError
              else Inr (report\<lparr>Annualized_Return :=
                          Some (Fin (spread / real_of_int (close - today) * 365))\<rparr>)
         else Inr report)"
proof -
  from assms(5) have ne: "map snd sdict \<noteq> []"
    by (rule calculate_alpha_beta_sharpe_prices)
  show ?thesis
    using assms ne
    by (simp add: merger_arbitrage_analysis_bloomberg_def Let_def py_div_def np_sub_def)
qed

subsection \<open>The worked deals\<close>

lemma example_metrics_AAA:
  "\<exists>a b s. calculate_alpha_beta_sharpe [Fin 80, Fin 85, Fin 90] [Fin 1, Fin 1, Fin 2]
             (Fin (3 / 100)) = Inr (a, b, s)"
  by (simp add: calculate_alpha_beta_sharpe_def linregress_def Let_def np_sub_def)

lemma example_analysis_AAA:
  "\<exists>a b s. merger_arbitrage_analysis_bloomberg example_bloomberg 0 ''AAA'' (Fin 100) close
             ''SPX Index'' =
     (if close = 0 then Inl ZeroDivisionError
      else Inr \<lparr>Target = ''AAA'', Current_Target_Price = Fin 90, Deal_Price = Fin 100,
                Arbitrage_Spread = Fin 10,
                Annualized_Return = Some (Fin (10 / real_of_int close * 365)),
                Alpha = a, Beta = b, Sharpe_Ratio = s\<rparr>)"
proof -
  obtain a b s where m:
    "calculate_alpha_beta_sharpe (map snd [(1::int, Fin 80), (2, Fin 85), (3, Fin 90)])
       (map snd [(1::int, Fin 1), (2, Fin 1), (3, Fin 2)]) (Fin (3 / 100)) = Inr (a, b, s)"
    using example_metrics_AAA by auto
  have "merger_arbitrage_analysis_bloomberg example_bloomberg 0 ''AAA'' (Fin 100) close
          ''SPX Index'' =
     (if close = 0 then Inl ZeroDivisionError
      else Inr \<lparr>Target = ''AAA'', Current_Target_Price = Fin 90, Deal_Price = Fin 100,
                Arbitrage_Spread = Fin 10,
                Annualized_Return = Some (Fin (10 / real_of_int close * 365)),
                Alpha = a, Beta = b, Sharpe_Ratio = s\<rparr>)"
    using analysis_after_metrics [of example_bloomberg "''AAA''" 0
        "[(''AAA'', [(1, Fin 80), (2, Fin 85), (3, Fin 90)])]" "''SPX Index''"
        "[(''SPX Index'', [(1, Fin 1), (2, Fin 1), (3, Fin 2)])]"
        "[(1, Fin 80), (2, Fin 85), (3, Fin 90)]" "[(1, Fin 1), (2, Fin 1), (3, Fin 2)]"
        a b s 90 100 close] m
    by (simp add: example_bloomberg_def Let_def)
  then show ?thesis by blast
qed

lemma example_analysis_BBB:
  "merger_arbitrage_analysis_bloomberg example_bloomberg 0 ''BBB'' deal close ''SPX Index'' =
     Inl (Exception ''Failed to start Bloomberg session.'')"
  by (simp add: merger_arbitrage_analysis_bloomberg_def example_bloomberg_def)

subsection \<open>The loop over the deals stops at the first exception\<close>

lemma analysis_loop_aborts:
  assumes "\<forall>x \<in> set pre. \<not> isl (merger_arbitrage_analysis_bloomberg gbd today (Ticker x)
             (Deal_Price_cell x) (Sell_Date x) market)"
    and "merger_arbitrage_analysis_bloomberg gbd today (Ticker r) (Deal_Price_cell r)
           (Sell_Date r) market = Inl e"
  shows "analysis_loop gbd today market acc (pre @ r # post) = Inl e"
  using assms
proof (induction pre arbitrary: acc)
  case Nil
  then show ?case by simp
next
  case (Cons x pre)
  from Cons.prems(1) obtain res where
    "merger_arbitrage_analysis_bloomberg gbd today (Ticker x) (Deal_Price_cell x)
       (Sell_Date x) market = Inr res"
    by (cases "merger_arbitrage_analysis_bloomberg gbd today (Ticker x) (Deal_Price_cell x)
       (Sell_Date x) market") auto
  with Cons show ?case by simp
qed

section \<open>Claims about failure isolation\<close>

text \<open>
  C1, as the two loops have it. In the batch loop of FinalBloombergCode.py, for every
  session, date and sheet the loop ends normally, and its result rows and its error log are
  the result rows and the error lines of the rows processed one at a time, in the order of
  the sheet, one entry for each row. A row alone gives: without a purchase date, the error
  line for an invalid purchase date; when the fetch of the stock raises or returns no rows,
  the error line for the stock data; when that of the market index does, the error line for
  the market data; when \<open>calculate_metrics\<close> returns the triple of None, the error line
  for the metrics; and otherwise one result row with the metrics computed, and no error
  line. In \<open>merger_arbitrage_from_excel\<close> nothing is caught: when the deals before some
  deal are analysed without error and that deal raises, the whole run ends in its exception,
  whatever deals follow.
\<close>

theorem C1_batch_isolation:
  "(\<exists>st. batch_loop blp today initial_state rows = Inr st \<and>
      results st =
        concat (map (\<lambda>r. case batch_loop blp today initial_state [r] of
                            Inl x \<Rightarrow> [] | Inr s \<Rightarrow> results s) rows) \<and>
      error_log st =
        concat (map (\<lambda>r. case batch_loop blp today initial_state [r] of
                            Inl x \<Rightarrow> [] | Inr s \<Rightarrow> error_log s) rows) \<and>
      length (results st) + length (error_log st) = length rows) \<and>
   (e = (case s of None \<Rightarrow> today | Some d \<Rightarrow> d) \<longrightarrow>
      batch_loop blp today initial_state [(t, None, s)] =
        Inr (log_error initial_state t ''Invalid purchase date format.'') \<and>
      ((\<exists>msg. blp t p e = Inl msg) \<or> blp t p e = Inr [] \<longrightarrow>
         batch_loop blp today initial_state [(t, Some p, s)] =
           Inr (log_error initial_state t ''Error fetching stock data.'')) \<and>
      (blp t p e = Inr sdf \<and> sdf \<noteq> [] \<and>
       ((\<exists>msg. blp ''UKX Index'' p e = Inl msg) \<or> blp ''UKX Index'' p e = Inr []) \<longrightarrow>
         batch_loop blp today initial_state [(t, Some p, s)] =
           Inr (log_error initial_state t ''Error fetching market data.'')) \<and>
      (blp t p e = Inr sdf \<and> sdf \<noteq> [] \<and> blp ''UKX Index'' p e = Inr mdf \<and> mdf \<noteq> [] \<and>
       calculate_metrics sdf mdf = None \<longrightarrow>
         batch_loop blp today initial_state [(t, Some p, s)] =
           Inr (log_error initial_state t ''Error calculating metrics.'')) \<and>
      (blp t p e = Inr sdf \<and> sdf \<noteq> [] \<and> blp ''UKX Index'' p e = Inr mdf \<and> mdf \<noteq> [] \<and>
       calculate_metrics sdf mdf = Some (a, b, sh) \<longrightarrow>
         batch_loop blp today initial_state [(t, Some p, s)] =
           Inr (record_success initial_state t a b sh))) \<and>
   ((\<forall>x \<in> set pre. \<not> isl (merger_arbitrage_analysis_bloomberg gbd day (Ticker x)
         (Deal_Price_cell x) (Sell_Date x) market)) \<and>
    merger_arbitrage_analysis_bloomberg gbd day (Ticker r) (Deal_Price_cell r) (Sell_Date r)
      market = Inl exn \<longrightarrow>
      merger_arbitrage_from_excel gbd day (pre @ r # post) market = Inl exn)"
proof (intro conjI)
  from batch_loop_appends [of blp today initial_state rows]
  show "\<exists>st. batch_loop blp today initial_state rows = Inr st \<and>
      results st =
        concat (map (\<lambda>r. case batch_loop blp today initial_state [r] of
                            Inl x \<Rightarrow> [] | Inr s \<Rightarrow> results s) rows) \<and>
      error_log st =
        concat (map (\<lambda>r. case batch_loop blp today initial_state [r] of
                            Inl x \<Rightarrow> [] | Inr s \<Rightarrow> error_log s) rows) \<and>
      length (results st) + length (error_log st) = length rows"
    by (auto simp: initial_state_def)
next
  show "e = (case s of None \<Rightarrow> today | Some d \<Rightarrow> d) \<longrightarrow>
      batch_loop blp today initial_state [(t, None, s)] =
        Inr (log_error initial_state t ''Invalid purchase date format.'') \<and>
      ((\<exists>msg. blp t p e = Inl msg) \<or> blp t p e = Inr [] \<longrightarrow>
         batch_loop blp today initial_state [(t, Some p, s)] =
           Inr (log_error initial_state t ''Error fetching stock data.'')) \<and>
      (blp t p e = Inr sdf \<and> sdf \<noteq> [] \<and>
       ((\<exists>msg. blp ''UKX Index'' p e = Inl msg) \<or> blp ''UKX Index'' p e = Inr []) \<longrightarrow>
         batch_loop blp today initial_state [(t, Some p, s)] =
           Inr (log_error initial_state t ''Error fetching market data.'')) \<and>
      (blp t p e = Inr sdf \<and> sdf \<noteq> [] \<and> blp ''UKX Index'' p e = Inr mdf \<and> mdf \<noteq> [] \<and>
       calculate_metrics sdf mdf = None \<longrightarrow>
         batch_loop blp today initial_state [(t, Some p, s)] =
           Inr (log_error initial_state t ''Error calculating metrics.'')) \<and>
      (blp t p e = Inr sdf \<and> sdf \<noteq> [] \<and> blp ''UKX Index'' p e = Inr mdf \<and> mdf \<noteq> [] \<and>
       calculate_metrics sdf mdf = Some (a, b, sh) \<longrightarrow>
         batch_loop blp today initial_state [(t, Some p, s)] =
           Inr (record_success initial_state t a b sh))"
  proof
    assume e: "e = (case s of None \<Rightarrow> today | Some d \<Rightarrow> d)"
    have dated: "batch_loop blp today initial_state [(t, Some p, s)] =
        (case blp t p e of
           Inl msg \<Rightarrow> Inr (log_error initial_state t ''Error fetching stock data.'')
         | Inr sdf \<Rightarrow>
             if sdf = [] then Inr (log_error initial_state t ''Error fetching stock data.'')
             else
               case blp ''UKX Index'' p e of
                 Inl msg \<Rightarrow> Inr (log_error initial_state t ''Error fetching market data.'')
               | Inr mdf \<Rightarrow>
                   if mdf = [] then Inr (log_error initial_state t ''Error fetching market data.'')
                   else
                     case calculate_metrics sdf mdf of
                       None \<Rightarrow> Inr (log_error initial_state t ''Error calculating metrics.'')
                     | Some (a, b, sh) \<Rightarrow> Inr (record_success initial_state t a b sh))"
      unfolding e by (simp add: loop_body_dated split: sum.splits option.splits)
    show "batch_loop blp today initial_state [(t, None, s)] =
        Inr (log_error initial_state t ''Invalid purchase date format.'') \<and>
      ((\<exists>msg. blp t p e = Inl msg) \<or> blp t p e = Inr [] \<longrightarrow>
         batch_loop blp today initial_state [(t, Some p, s)] =
           Inr (log_error initial_state t ''Error fetching stock data.'')) \<and>
      (blp t p e = Inr sdf \<and> sdf \<noteq> [] \<and>
       ((\<exists>msg. blp ''UKX Index'' p e = Inl msg) \<or> blp ''UKX Index'' p e = Inr []) \<longrightarrow>
         batch_loop blp today initial_state [(t, Some p, s)] =
           Inr (log_error initial_state t ''Error fetching market data.'')) \<and>
      (blp t p e = Inr sdf \<and> sdf \<noteq> [] \<and> blp ''UKX Index'' p e = Inr mdf \<and> mdf \<noteq> [] \<and>
       calculate_metrics sdf mdf = None \<longrightarrow>
         batch_loop blp today initial_state [(t, Some p, s)] =
           Inr (log_error initial_state t ''Error calculating metrics.'')) \<and>
      (blp t p e = Inr sdf \<and> sdf \<noteq> [] \<and> blp ''UKX Index'' p e = Inr mdf \<and> mdf \<noteq> [] \<and>
       calculate_metrics sdf mdf = Some (a, b, sh) \<longrightarrow>
         batch_loop blp today initial_state [(t, Some p, s)] =
           Inr (record_success initial_state t a b sh))"
      unfolding dated by (auto simp: loop_body_undated)
  qed
next
  show "(\<forall>x \<in> set pre. \<not> isl (merger_arbitrage_analysis_bloomberg gbd day (Ticker x)
         (Deal_Price_cell x) (Sell_Date x) market)) \<and>
    merger_arbitrage_analysis_bloomberg gbd day (Ticker r) (Deal_Price_cell r) (Sell_Date r)
      market = Inl exn \<longrightarrow>
      merger_arbitrage_from_excel gbd day (pre @ r # post) market = Inl exn"
    by (simp add: merger_arbitrage_from_excel_def analysis_loop_aborts)
qed

text \<open>
  Three positions of which only the second cannot be fetched: two results, for the first
  and the third in that order, and one error line, for the second. Each kind of failure of
  a single row gives its error line. Three deals of which only the second cannot be fetched:
  the run ends in the exception of the second.
\<close>

theorem C1_batch_isolation_witness:
  "(\<exists>st. batch_loop example_session 3 initial_state example_rows = Inr st \<and>
      map fst (results st) = [''AAA'', ''CCC''] \<and>
      error_log st = [could_not_process ''BBB'' ''Error fetching stock data.'']) \<and>
   batch_loop example_session 3 initial_state [(''AAA'', None, Some 3)] =
     Inr (log_error initial_state ''AAA'' ''Invalid purchase date format.'') \<and>
   batch_loop example_session 3 initial_state [(''BBB'', Some 1, Some 3)] =
     Inr (log_error initial_state ''BBB'' ''Error fetching stock data.'') \<and>
   batch_loop (\<lambda>t s e. if t = ''AAA'' then Inr [(1, Fin 1), (2, Fin 2)] else Inl ''no index'') 3
       initial_state [(''AAA'', Some 1, Some 3)] =
     Inr (log_error initial_state ''AAA'' ''Error fetching market data.'') \<and>
   batch_loop (\<lambda>t s e. if t = ''AAA'' then Inr [(1, Fin 1), (2, Fin 2)]
                        else Inr [(5, Fin 1), (6, Fin 2)]) 3
       initial_state [(''AAA'', Some 1, Some 3)] =
     Inr (log_error initial_state ''AAA'' ''Error calculating metrics.'') \<and>
   batch_loop example_session 3 initial_state [(''AAA'', Some 1, Some 3)] =
     Inr (record_success initial_state ''AAA'' (Fin (1 / 1000)) (Fin (- (1 / 100)))
            (Fin (sqrt 252 / (2625 * sqrt (1 / 4000000))))) \<and>
   merger_arbitrage_from_excel example_bloomberg 0 example_deals ''SPX Index'' =
     Inl (Exception ''Failed to start Bloomberg session.'')"
proof -
  obtain a0 b0 s0 where ok:
    "merger_arbitrage_analysis_bloomberg example_bloomberg 0 ''AAA'' (Fin 100) 73 ''SPX Index'' =
      Inr \<lparr>Target = ''AAA'', Current_Target_Price = Fin 90, Deal_Price = Fin 100,
            Arbitrage_Spread = Fin 10,
            Annualized_Return = Some (Fin (10 / real_of_int 73 * 365)),
            Alpha = a0, Beta = b0, Sharpe_Ratio = s0\<rparr>"
    using example_analysis_AAA [of 73] by auto
  have none: "calculate_metrics [(1, Fin 1), (2, Fin 2)] [(5, Fin 1), (6, Fin 2)] = None"
    by (simp add: calculate_metrics_def returns_data_def stock_returns_def market_returns_def
          dropna_def pct_change_def concat_axis1_def dropna_rows_def at_date_def np_sub_def)
  show ?thesis
    using
      C1_batch_isolation [where blp = example_session and today = 3 and rows = example_rows
        and t = "''BBB''" and p = 1 and s = "Some 3" and e = 3
        and gbd = example_bloomberg and day = 0 and market = "''SPX Index''"
        and pre = "[\<lparr>Ticker = ''AAA'', Buy_Date = - 30, Sell_Date = 73,
                     Deal_Price_cell = Fin 100\<rparr>]"
        and r = "\<lparr>Ticker = ''BBB'', Buy_Date = - 30, Sell_Date = 73,
                   Deal_Price_cell = Fin 100\<rparr>"
        and post = "[\<lparr>Ticker = ''CCC'', Buy_Date = - 30, Sell_Date = 73,
                      Deal_Price_cell = Fin 100\<rparr>]"
        and exn = "Exception ''Failed to start Bloomberg session.''"]
      C1_batch_isolation [where blp = example_session and today = 3 and t = "''AAA''"
        and p = 1 and s = "Some 3" and e = 3
        and sdf = "[(1, Fin 1000), (2, Fin 1001), (3, Fin 1001)]"
        and mdf = "[(1, Fin 100), (2, Fin 100), (3, Fin 110)]"
        and a = "Fin (1 / 1000)" and b = "Fin (- (1 / 100))"
        and sh = "Fin (sqrt 252 / (2625 * sqrt (1 / 4000000)))"]
      C1_batch_isolation [where
        blp = "\<lambda>t s e. if t = ''AAA'' then Inr [(1, Fin 1), (2, Fin 2)] else Inl ''no index''"
        and today = 3 and t = "''AAA''" and p = 1 and s = "Some 3" and e = 3
        and sdf = "[(1, Fin 1), (2, Fin 2)]"]
      C1_batch_isolation [where
        blp = "\<lambda>t s e. if t = ''AAA'' then Inr [(1, Fin 1), (2, Fin 2)]
                        else Inr [(5, Fin 1), (6, Fin 2)]"
        and today = 3 and t = "''AAA''" and p = 1 and s = "Some 3" and e = 3
        and sdf = "[(1, Fin 1), (2, Fin 2)]" and mdf = "[(5, Fin 1), (6, Fin 2)]"]
      ok none
    by (simp add: example_rows_def example_loops record_success_def log_error_def
          initial_state_def example_session_def example_AAA_metrics example_deals_def
          example_analysis_BBB)
qed

text \<open>
  Against C1 for \<open>merger_arbitrage_from_excel\<close>: of three deals only the second cannot be
  fetched, the first alone is analysed without error, and the run over the three ends in
  the exception of the second, with no result for any of them.
\<close>

theorem C1_merger_batch_aborts_counterexample:
  "merger_arbitrage_from_excel example_bloomberg 0 example_deals ''SPX Index'' =
     Inl (Exception ''Failed to start Bloomberg session.'') \<and>
   \<not> isl (merger_arbitrage_from_excel example_bloomberg 0 [example_deals ! 0] ''SPX Index'')"
proof -
  obtain a b s where
    "merger_arbitrage_analysis_bloomberg example_bloomberg 0 ''AAA'' (Fin 100) 73 ''SPX Index'' =
      Inr \<lparr>Target = ''AAA'', Current_Target_Price = Fin 90, Deal_Price = Fin 100,
            Arbitrage_Spread = Fin 10,
            Annualized_Return = Some (Fin (10 / real_of_int 73 * 365)),
            Alpha = a, Beta = b, Sharpe_Ratio = s\<rparr>"
    using example_analysis_AAA [of 73] by auto
  then show ?thesis
    by (simp add: merger_arbitrage_from_excel_def example_deals_def example_analysis_BBB)
qed

section \<open>Claims about the spread analysis\<close>

text \<open>
  C6, with the example as the code computes it. Once the prices are fetched and the metrics
  computed, for a positive deal price and a finite last price the spread is
  (deal - current) / deal * 100; a spread of zero or less leaves the annualized return
  absent; a positive spread with a close date after today gives spread / days * 365. For a
  deal at 100, a last price of 90 and 73 days the spread is 10 and the annualized return 50.
\<close>

theorem C6_spread_and_annualized_return:
  assumes "gbd [target] [''PX_LAST''] (today - 365) today = Inr sdata"
    and "gbd [market] [''PX_LAST''] (today - 365) today = Inr mdata"
    and "map_of sdata target = Some sdict"
    and "map_of mdata market = Some mdict"
    and "calculate_alpha_beta_sharpe (map snd sdict) (map snd mdict) (Fin (3 / 100)) =
           Inr (alpha, beta, sharpe)"
    and "last (map snd sdict) = Fin cur"
    and "0 < deal"
  shows "((deal - cur) / deal * 100 \<le> 0 \<longrightarrow>
           (\<exists>r. merger_arbitrage_analysis_bloomberg gbd today target (Fin deal) close market = Inr r \<and>
                Arbitrage_Spread r = Fin ((deal - cur) / deal * 100) \<and>
                Annualized_Return r = None)) \<and>
         (0 < (deal - cur) / deal * 100 \<and> today < close \<longrightarrow>
           (\<exists>r. merger_arbitrage_analysis_bloomberg gbd today target (Fin deal) close market = Inr r \<and>
                Arbitrage_Spread r = Fin ((deal - cur) / deal * 100) \<and>
                Annualized_Return r =
                  Some (Fin ((deal - cur) / deal * 100 / real_of_int (close - today) * 365))))"
proof -
  from assms(7) have "deal \<noteq> 0" by simp
  with assms analysis_after_metrics [of gbd target today sdata market mdata sdict mdict
      alpha beta sharpe cur deal close]
  show ?thesis by (auto simp: Let_def)
qed

theorem C6_spread_and_annualized_return_witness:
  "(\<exists>r. merger_arbitrage_analysis_bloomberg example_bloomberg 0 ''AAA'' (Fin 100) 73 ''SPX Index'' = Inr r \<and>
       Arbitrage_Spread r = Fin 10 \<and> Annualized_Return r = Some (Fin 50)) \<and>
   (\<exists>r. merger_arbitrage_analysis_bloomberg example_bloomberg 0 ''AAA'' (Fin 80) 73 ''SPX Index'' = Inr r \<and>
       Arbitrage_Spread r = Fin (- (25 / 2)) \<and> Annualized_Return r = None)"
proof -
  obtain a b s where m: "calculate_alpha_beta_sharpe (map snd [(1::int, Fin 80), (2, Fin 85), (3, Fin 90)])
      (map snd [(1::int, Fin 1), (2, Fin 1), (3, Fin 2)]) (Fin (3 / 100)) = Inr (a, b, s)"
    using example_metrics_AAA by auto
  show ?thesis
    using C6_spread_and_annualized_return [of example_bloomberg "''AAA''" 0
        "[(''AAA'', [(1, Fin 80), (2, Fin 85), (3, Fin 90)])]" "''SPX Index''"
        "[(''SPX Index'', [(1, Fin 1), (2, Fin 1), (3, Fin 2)])]"
        "[(1, Fin 80), (2, Fin 85), (3, Fin 90)]" "[(1, Fin 1), (2, Fin 1), (3, Fin 2)]"
        a b s 90 100 73]
      C6_spread_and_annualized_return [of example_bloomberg "''AAA''" 0
        "[(''AAA'', [(1, Fin 80), (2, Fin 85), (3, Fin 90)])]" "''SPX Index''"
        "[(''SPX Index'', [(1, Fin 1), (2, Fin 1), (3, Fin 2)])]"
        "[(1, Fin 80), (2, Fin 85), (3, Fin 90)]" "[(1, Fin 1), (2, Fin 1), (3, Fin 2)]"
        a b s 90 80 73] m
    by (simp add: example_bloomberg_def)
qed

text \<open>
  Against the example of C6: deal 100, last price 90, 73 days to close give a spread of 10
  and an annualized return of 50, not 11.11 and 55.56.
\<close>

theorem C6_spread_example_counterexample:
  "map_sum id (\<lambda>r. (Arbitrage_Spread r, Annualized_Return r))
     (merger_arbitrage_analysis_bloomberg example_bloomberg 0 ''AAA'' (Fin 100) 73 ''SPX Index'') =
   Inr (Fin 10, Some (Fin 50))"
proof -
  obtain a b s where "merger_arbitrage_analysis_bloomberg example_bloomberg 0 ''AAA'' (Fin 100) 73 ''SPX Index'' =
      Inr \<lparr>Target = ''AAA'', Current_Target_Price = Fin 90, Deal_Price = Fin 100,
                Arbitrage_Spread = Fin 10,
                Annualized_Return = Some (Fin (10 / real_of_int 73 * 365)),
                Alpha = a, Beta = b, Sharpe_Ratio = s\<rparr>"
    using example_analysis_AAA [of 73] by auto
  then show ?thesis by simp
qed

text \<open>
  C3, as the code behaves. With the close date today or earlier, and the prices fetched and
  the metrics computed: a positive spread on the very day raises ZeroDivisionError, a
  positive spread after the close date returns a negative annualized return, and a spread
  of zero or less returns with the annualized return absent.
\<close>

theorem C3_past_close_date:
  assumes "gbd [target] [''PX_LAST''] (today - 365) today = Inr sdata"
    and "gbd [market] [''PX_LAST''] (today - 365) today = Inr mdata"
    and "map_of sdata target = Some sdict"
    and "map_of mdata market = Some mdict"
    and "calculate_alpha_beta_sharpe (map snd sdict) (map snd mdict) (Fin (3 / 100)) =
           Inr (alpha, beta, sharpe)"
    and "last (map snd sdict) = Fin cur"
    and "deal \<noteq> 0"
    and "close \<le> today"
  shows "(0 < (deal - cur) / deal * 100 \<and> close = today \<longrightarrow>
           merger_arbitrage_analysis_bloomberg gbd today target (Fin deal) close market =
             Inl ZeroDivisionError) \<and>
         (0 < (deal - cur) / deal * 100 \<and> close < today \<longrightarrow>
           (\<exists>r. merger_arbitrage_analysis_bloomberg gbd today target (Fin deal) close market = Inr r \<and>
                Annualized_Return r =
                  Some (Fin ((deal - cur) / deal * 100 / real_of_int (close - today) * 365)) \<and>
                (deal - cur) / deal * 100 / real_of_int (close - today) * 365 < 0)) \<and>
         ((deal - cur) / deal * 100 \<le> 0 \<longrightarrow>
           (\<exists>r. merger_arbitrage_analysis_bloomberg gbd today target (Fin deal) close market = Inr r \<and>
                Annualized_Return r = None))"
proof -
  define spread where "spread = (deal - cur) / deal * 100"
  have res: "merger_arbitrage_analysis_bloomberg gbd today target (Fin deal) close market =
     (if 0 < spread
      then if close - today = 0 then Inl ZeroDivisionError
           else Inr \<lparr>Target = target, Current_Target_Price = Fin cur, Deal_Price = Fin deal,
                    Arbitrage_Spread = Fin spread,
                    Annualized_Return = Some (Fin (spread / real_of_int (close - today) * 365)),
                    Alpha = alpha, Beta = beta, Sharpe_Ratio = sharpe\<rparr>
      else Inr \<lparr>Target = target, Current_Target_Price = Fin cur, Deal_Price = Fin deal,
                Arbitrage_Spread = Fin spread, Annualized_Return = None,
                Alpha = alpha, Beta = beta, Sharpe_Ratio = sharpe\<rparr>)"
    using assms analysis_after_metrics [of gbd target today sdata market mdata sdict mdict
      alpha beta sharpe cur deal close]
    by (simp add: Let_def spread_def)
  have neg: "spread / real_of_int (close - today) * 365 < 0" if "0 < spread" "close < today"
  proof -
    from that(2) have "real_of_int (close - today) < 0" by simp
    with that(1) have "spread / real_of_int (close - today) < 0"
      by (rule divide_pos_neg)
    then have "spread / real_of_int (close - today) * 365 < 0 * 365"
      by (rule mult_strict_right_mono) simp
    then show ?thesis by simp
  qed
  show ?thesis
    unfolding spread_def [symmetric] using res neg by auto
qed

theorem C3_past_close_date_witness:
  "merger_arbitrage_analysis_bloomberg example_bloomberg 0 ''AAA'' (Fin 100) 0 ''SPX Index'' =
     Inl ZeroDivisionError \<and>
   (\<exists>r. merger_arbitrage_analysis_bloomberg example_bloomberg 0 ''AAA'' (Fin 100) (- 1) ''SPX Index'' = Inr r \<and>
       Annualized_Return r = Some (Fin (- 3650))) \<and>
   (\<exists>r. merger_arbitrage_analysis_bloomberg example_bloomberg 0 ''AAA'' (Fin 80) (- 1) ''SPX Index'' = Inr r \<and>
       Annualized_Return r = None)"
proof -
  obtain a b s where m: "calculate_alpha_beta_sharpe (map snd [(1::int, Fin 80), (2, Fin 85), (3, Fin 90)])
      (map snd [(1::int, Fin 1), (2, Fin 1), (3, Fin 2)]) (Fin (3 / 100)) = Inr (a, b, s)"
    using example_metrics_AAA by auto
  show ?thesis
    using C3_past_close_date [of example_bloomberg "''AAA''" 0
        "[(''AAA'', [(1, Fin 80), (2, Fin 85), (3, Fin 90)])]" "''SPX Index''"
        "[(''SPX Index'', [(1, Fin 1), (2, Fin 1), (3, Fin 2)])]"
        "[(1, Fin 80), (2, Fin 85), (3, Fin 90)]" "[(1, Fin 1), (2, Fin 1), (3, Fin 2)]"
        a b s 90 100 0]
      C3_past_close_date [of example_bloomberg "''AAA''" 0
        "[(''AAA'', [(1, Fin 80), (2, Fin 85), (3, Fin 90)])]" "''SPX Index''"
        "[(''SPX Index'', [(1, Fin 1), (2, Fin 1), (3, Fin 2)])]"
        "[(1, Fin 80), (2, Fin 85), (3, Fin 90)]" "[(1, Fin 1), (2, Fin 1), (3, Fin 2)]"
        a b s 90 100 "- 1"]
      C3_past_close_date [of example_bloomberg "''AAA''" 0
        "[(''AAA'', [(1, Fin 80), (2, Fin 85), (3, Fin 90)])]" "''SPX Index''"
        "[(''SPX Index'', [(1, Fin 1), (2, Fin 1), (3, Fin 2)])]"
        "[(1, Fin 80), (2, Fin 85), (3, Fin 90)]" "[(1, Fin 1), (2, Fin 1), (3, Fin 2)]"
        a b s 90 80 "- 1"] m
    by (simp add: example_bloomberg_def)
qed

text \<open>
  Against C3: with the close date yesterday, deal 100 and last price 90, the analysis
  returns an annualized return of -3650 and raises nothing.
\<close>

theorem C3_yesterday_counterexample:
  "map_sum id Annualized_Return
     (merger_arbitrage_analysis_bloomberg example_bloomberg 0 ''AAA'' (Fin 100) (- 1) ''SPX Index'') =
   Inr (Some (Fin (- 3650)))"
proof -
  obtain a b s where "merger_arbitrage_analysis_bloomberg example_bloomberg 0 ''AAA'' (Fin 100) (- 1) ''SPX Index'' =
      Inr \<lparr>Target = ''AAA'', Current_Target_Price = Fin 90, Deal_Price = Fin 100,
                Arbitrage_Spread = Fin 10,
                Annualized_Return = Some (Fin (10 / real_of_int (- 1) * 365)),
                Alpha = a, Beta = b, Sharpe_Ratio = s\<rparr>"
    using example_analysis_AAA [of "- 1"] by auto
  then show ?thesis by simp
qed

section \<open>Aligning two return series\<close>

lemma pct_change_from_dates: "map fst (pct_change_from prev s) = map fst s"
  by (induction prev s rule: pct_change_from.induct) auto




lemma at_date_nan_iff:
  assumes "\<forall>(d, v) \<in> set s. \<not> isnan v"
  shows "isnan (at_date s d) \<longleftrightarrow> d \<notin> fst ` set s"
proof (cases "map_of s d")
  case None
  then have "d \<notin> fst ` set s" by (simp add: map_of_eq_None_iff)
  with None show ?thesis by (simp add: at_date_def)
next
  case (Some v)
  then have "(d, v) \<in> set s" by (rule map_of_SomeD)
  with assms have "\<not> isnan v" and "d \<in> fst ` set s" by force+
  with Some show ?thesis by (simp add: at_date_def)
qed

lemma pct_change_from_finite:
  "priced s \<Longrightarrow> 0 < q \<Longrightarrow> \<forall>(d, v) \<in> set (pct_change_from (Fin q) s). \<not> isnan v"
proof (induction s arbitrary: q)
  case Nil
  then show ?case by simp
next
  case (Cons a s)
  obtain d p where a: "a = (d, p)" by (cases a)
  with Cons.prems obtain x where p: "p = Fin x" "0 < x" and s: "priced s"
    by (auto simp: priced_def split: pyfloat.splits)
  from Cons.IH [OF s p(2)] show ?case
    using Cons.prems(2) by (simp add: a p np_sub_def)
qed

lemma stock_returns_priced:
  "priced s \<Longrightarrow> map fst (stock_returns s) = tl (map fst s) \<and>
     (\<forall>(d, v) \<in> set (stock_returns s). \<not> isnan v)"
proof (cases s)
  case Nil
  then show ?thesis by (simp add: stock_returns_def pct_change_def dropna_def)
next
  case (Cons a r)
  assume pr: "priced s"
  obtain d p where a: "a = (d, p)" by (cases a)
  with pr Cons obtain x where p: "p = Fin x" "0 < x" and r: "priced r"
    by (auto simp: priced_def split: pyfloat.splits)
  have fin: "\<forall>(d, v) \<in> set (pct_change_from (Fin x) r). \<not> isnan v"
    using pct_change_from_finite [OF r p(2)] .
  then have keep: "filter (\<lambda>(d, v). \<not> isnan v) (pct_change_from (Fin x) r) = pct_change_from (Fin x) r"
    by (auto simp: filter_id_conv)
  have "stock_returns s = pct_change_from (Fin x) r"
    by (simp add: stock_returns_def pct_change_def dropna_def Cons a p np_sub_def keep)
  then show ?thesis
    using fin by (simp add: pct_change_from_dates Cons)
qed

lemma market_returns_eq: "market_returns s = stock_returns s"
  by (simp add: market_returns_def stock_returns_def)

lemma aligned_dates:
  assumes "\<forall>(d, v) \<in> set a. \<not> isnan v" and "\<forall>(d, v) \<in> set b. \<not> isnan v"
  shows "map fst (dropna_rows (concat_axis1 a b)) = filter (\<lambda>d. d \<in> fst ` set b) (map fst a)"
proof -
  have keep: "(\<not> isnan (at_date a d) \<and> \<not> isnan (at_date b d)) \<longleftrightarrow>
      (d \<in> fst ` set a \<and> d \<in> fst ` set b)" for d
    using at_date_nan_iff [OF assms(1)] at_date_nan_iff [OF assms(2)] by blast
  have step: "map fst (dropna_rows (map (\<lambda>d. (d, at_date a d, at_date b d)) ds)) =
      filter (\<lambda>d. d \<in> fst ` set a \<and> d \<in> fst ` set b) ds" for ds
    by (induction ds) (auto simp: dropna_rows_def keep)
  have "map fst (dropna_rows (concat_axis1 a b)) =
      filter (\<lambda>d. d \<in> fst ` set a \<and> d \<in> fst ` set b)
        (map fst a @ filter (\<lambda>d. d \<notin> set (map fst a)) (map fst b))"
    unfolding concat_axis1_def by (rule step)
  also have "\<dots> = filter (\<lambda>d. d \<in> fst ` set b) (map fst a)"
    by (auto simp: filter_empty_conv intro: filter_cong)
  finally show ?thesis .
qed

lemma returns_data_dates:
  assumes "priced sd" and "priced md"
  shows "map fst (returns_data sd md) =
     filter (\<lambda>d. d \<in> set (tl (map fst md))) (tl (map fst sd))"
proof -
  from stock_returns_priced [OF assms(1)] stock_returns_priced [OF assms(2)]
  have s: "map fst (stock_returns sd) = tl (map fst sd)"
    and sn: "\<forall>(d, v) \<in> set (stock_returns sd). \<not> isnan v"
    and m: "map fst (market_returns md) = tl (map fst md)"
    and mn: "\<forall>(d, v) \<in> set (market_returns md). \<not> isnan v"
    by (simp_all add: market_returns_eq)
  have "fst ` set (market_returns md) = set (tl (map fst md))"
    using m by (metis list.set_map)
  with aligned_dates [OF sn mn] s show ?thesis
    by (simp add: returns_data_def)
qed




section \<open>Claims about the alignment\<close>

text \<open>
  C7, as the code aligns. For two price frames with pairwise different dates and positive
  finite prices, the aligned frame has as many rows as there are dates common to the two
  series once each has lost its first date (returns first, intersection second); when the
  two series start on the same date this is the size of the intersection of their price
  dates minus 1.
\<close>

theorem C7_aligned_length:
  assumes "priced sd" and "priced md"
    and "distinct (map fst sd)" and "distinct (map fst md)"
  shows "length (returns_data sd md) = card (set (tl (map fst sd)) \<inter> set (tl (map fst md))) \<and>
     (sd \<noteq> [] \<and> md \<noteq> [] \<and> fst (hd sd) = fst (hd md) \<longrightarrow>
        length (returns_data sd md) = card (set (map fst sd) \<inter> set (map fst md)) - 1)"
proof -
  let ?S = "set (tl (map fst sd))" and ?M = "set (tl (map fst md))"
  have "length (returns_data sd md) = length (map fst (returns_data sd md))" by simp
  also have "\<dots> = length (filter (\<lambda>d. d \<in> ?M) (tl (map fst sd)))"
    by (simp only: returns_data_dates [OF assms(1,2)])
  also have "\<dots> = card ({d. d \<in> ?M} \<inter> ?S)"
    using assms(3) by (intro distinct_length_filter) (simp add: distinct_tl)
  also have "{d. d \<in> ?M} \<inter> ?S = ?S \<inter> ?M" by blast
  finally have len: "length (returns_data sd md) = card (?S \<inter> ?M)" .
  have same: "card (set (map fst sd) \<inter> set (map fst md)) - 1 = card (?S \<inter> ?M)"
    if "sd \<noteq> []" "md \<noteq> []" "fst (hd sd) = fst (hd md)"
  proof -
    from that obtain d0 x y rs rm where sd: "sd = (d0, x) # rs" and md: "md = (d0, y) # rm"
      by (cases sd; cases md) auto
    from assms(3) sd have "d0 \<notin> ?S" by simp
    then have notin: "d0 \<notin> ?S \<inter> ?M" by blast
    have "set (map fst sd) \<inter> set (map fst md) = insert d0 (?S \<inter> ?M)"
      by (auto simp: sd md)
    then have "card (set (map fst sd) \<inter> set (map fst md)) = Suc (card (?S \<inter> ?M))"
      using notin by (simp add: card_insert_disjoint)
    then show ?thesis by simp
  qed
  from len same show ?thesis by simp
qed

theorem C7_aligned_length_witness:
  "length (returns_data [(1, Fin 100), (2, Fin 110), (3, Fin 121)]
             [(1, Fin 50), (2, Fin 51), (3, Fin 52)]) = 2"
proof -
  have "{1, 2, 3} \<inter> {1, 2, 3::int} = {1, 2, 3}" by blast
  then show ?thesis
    using C7_aligned_length [of "[(1, Fin 100), (2, Fin 110), (3, Fin 121)]"
      "[(1, Fin 50), (2, Fin 51), (3, Fin 52)]"]
    by (simp add: priced_def)
qed

text \<open>
  Against C7: two series of three points that start on different dates and share the dates
  3 and 5 keep both as aligned returns, one more than the size of the intersection minus 1.
\<close>

theorem C7_offset_start_counterexample:
  "length [(1::int, Fin 100), (3, Fin 110), (5, Fin 121)] = 3 \<and>
   length [(2::int, Fin 100), (3, Fin 110), (5, Fin 121)] = 3 \<and>
   length (returns_data [(1, Fin 100), (3, Fin 110), (5, Fin 121)]
             [(2, Fin 100), (3, Fin 110), (5, Fin 121)]) = 2 \<and>
   card (fst ` set [(1::int, Fin 100), (3, Fin 110), (5, Fin 121)] \<inter>
         fst ` set [(2::int, Fin 100), (3, Fin 110), (5, Fin 121)]) - 1 = 1"
proof -
  have "{1, 3, 5} \<inter> {2, 3, 5::int} = {3, 5}" by auto
  then show ?thesis
    by (simp add: returns_data_def stock_returns_def market_returns_def dropna_def
          pct_change_def concat_axis1_def dropna_rows_def at_date_def np_sub_def)
qed




section \<open>Dividing by a zero deviation\<close>



section \<open>Claims about the estimator\<close>




section \<open>Which returns each script computes\<close>




lemma priced_values: "priced s \<longleftrightarrow> positive_prices (map snd s)"
  by (induction s) (auto simp: priced_def positive_prices_def split: prod.splits)









section \<open>The date range each script fetches\<close>

lemma loop_body_window:
  assumes "blp ticker p e = blp' ticker p e"
    and "blp ''UKX Index'' p e = blp' ''UKX Index'' p e"
    and "e = (case s of None \<Rightarrow> today | Some d \<Rightarrow> d)"
  shows "loop_body blp today st (ticker, Some p, s) = loop_body blp' today st (ticker, Some p, s)"
  using assms by (cases s) (simp_all add: loop_body_def fetch_with_dates Let_def)

lemma analysis_window:
  assumes "gbd [target] [''PX_LAST''] (today - 365) today =
           gbd' [target] [''PX_LAST''] (today - 365) today"
    and "gbd [market] [''PX_LAST''] (today - 365) today =
         gbd' [market] [''PX_LAST''] (today - 365) today"
  shows "merger_arbitrage_analysis_bloomberg gbd today target deal close market =
         merger_arbitrage_analysis_bloomberg gbd' today target deal close market"
  unfolding merger_arbitrage_analysis_bloomberg_def Let_def by (simp only: assms)

text \<open>
  C9, as the two scripts fetch. In the portfolio script, for a request with a purchase date,
  the two frames that the session returns for the ticker and for the market index over the
  purchase date to the sale date, or to today when the sale date is absent, are the
  arguments of \<open>calculate_metrics\<close>, whose triple is the result row of the request; and
  the outcome depends on the session through these two answers only. In the merger script
  the alpha, beta and Sharpe ratio of the report are those of \<open>calculate_alpha_beta_sharpe\<close>
  on the prices that the provider returns for the target and for the market over the 365
  days that end today; and the outcome depends on the provider through these two answers
  only, whatever the dates of the request.
\<close>

theorem C9_fetch_windows:
  "(e = (case s of None \<Rightarrow> today | Some d \<Rightarrow> d) \<and>
    blp ticker p e = Inr sdf \<and> sdf \<noteq> [] \<and> blp ''UKX Index'' p e = Inr mdf \<and> mdf \<noteq> [] \<longrightarrow>
      loop_body blp today st (ticker, Some p, s) =
        (case calculate_metrics sdf mdf of
           None \<Rightarrow> Inr (log_error st ticker ''Error calculating metrics.'')
         | Some (a, b, sh) \<Rightarrow> Inr (record_success st ticker a b sh))) \<and>
   (e = (case s of None \<Rightarrow> today | Some d \<Rightarrow> d) \<and>
    blp ticker p e = blp' ticker p e \<and> blp ''UKX Index'' p e = blp' ''UKX Index'' p e \<longrightarrow>
      loop_body blp today st (ticker, Some p, s) = loop_body blp' today st (ticker, Some p, s)) \<and>
   (gbd [target] [''PX_LAST''] (day - 365) day = Inr sdata \<and>
    gbd [market] [''PX_LAST''] (day - 365) day = Inr mdata \<and>
    map_of sdata target = Some sdict \<and> map_of mdata market = Some mdict \<and>
    calculate_alpha_beta_sharpe (map snd sdict) (map snd mdict) (Fin (3 / 100)) =
      Inr (alpha, beta, sharpe) \<and>
    last (map snd sdict) = Fin cur \<and> deal \<noteq> 0 \<and> close \<noteq> day \<longrightarrow>
      (\<exists>r. merger_arbitrage_analysis_bloomberg gbd day target (Fin deal) close market = Inr r \<and>
           Alpha r = alpha \<and> Beta r = beta \<and> Sharpe_Ratio r = sharpe \<and>
           Current_Target_Price r = Fin cur)) \<and>
   (gbd [target] [''PX_LAST''] (day - 365) day =
      gbd' [target] [''PX_LAST''] (day - 365) day \<and>
    gbd [market] [''PX_LAST''] (day - 365) day =
      gbd' [market] [''PX_LAST''] (day - 365) day \<longrightarrow>
      merger_arbitrage_analysis_bloomberg gbd day target dp close market =
      merger_arbitrage_analysis_bloomberg gbd' day target dp close market)"
proof (intro conjI impI)
  assume "e = (case s of None \<Rightarrow> today | Some d \<Rightarrow> d) \<and>
    blp ticker p e = Inr sdf \<and> sdf \<noteq> [] \<and> blp ''UKX Index'' p e = Inr mdf \<and> mdf \<noteq> []"
  then show "loop_body blp today st (ticker, Some p, s) =
        (case calculate_metrics sdf mdf of
           None \<Rightarrow> Inr (log_error st ticker ''Error calculating metrics.'')
         | Some (a, b, sh) \<Rightarrow> Inr (record_success st ticker a b sh))"
    by (clarsimp simp add: loop_body_dated)
next
  assume "e = (case s of None \<Rightarrow> today | Some d \<Rightarrow> d) \<and>
    blp ticker p e = blp' ticker p e \<and> blp ''UKX Index'' p e = blp' ''UKX Index'' p e"
  then show "loop_body blp today st (ticker, Some p, s) =
      loop_body blp' today st (ticker, Some p, s)"
    using loop_body_window [where blp = blp and blp' = blp' and ticker = ticker and p = p
      and e = e and s = s and today = today and st = st]
    by blast
next
  assume h: "gbd [target] [''PX_LAST''] (day - 365) day = Inr sdata \<and>
    gbd [market] [''PX_LAST''] (day - 365) day = Inr mdata \<and>
    map_of sdata target = Some sdict \<and> map_of mdata market = Some mdict \<and>
    calculate_alpha_beta_sharpe (map snd sdict) (map snd mdict) (Fin (3 / 100)) =
      Inr (alpha, beta, sharpe) \<and>
    last (map snd sdict) = Fin cur \<and> deal \<noteq> 0 \<and> close \<noteq> day"
  with analysis_after_metrics [of gbd target day sdata market mdata sdict mdict
      alpha beta sharpe cur deal close]
  show "\<exists>r. merger_arbitrage_analysis_bloomberg gbd day target (Fin deal) close market = Inr r \<and>
           Alpha r = alpha \<and> Beta r = beta \<and> Sharpe_Ratio r = sharpe \<and>
           Current_Target_Price r = Fin cur"
    by (auto simp: Let_def)
next
  assume "gbd [target] [''PX_LAST''] (day - 365) day =
      gbd' [target] [''PX_LAST''] (day - 365) day \<and>
    gbd [market] [''PX_LAST''] (day - 365) day =
      gbd' [market] [''PX_LAST''] (day - 365) day"
  then show "merger_arbitrage_analysis_bloomberg gbd day target dp close market =
      merger_arbitrage_analysis_bloomberg gbd' day target dp close market"
    using analysis_window [where gbd = gbd and gbd' = gbd' and target = target
      and market = market and today = day and deal = dp and close = close]
    by blast
qed

text \<open>
  A session and a provider that answer for one date range only: the request from day 1 with
  no sale date, on day 3, gets the metrics of the frames for days 1 to 3; the deal analysed
  on day 0 gets the metrics of the prices for the 365 days before.
\<close>

theorem C9_fetch_windows_witness:
  "loop_body (session_window_only 1 3) 3 initial_state (''AAA'', Some 1, None) =
     Inr (record_success initial_state ''AAA'' (Fin (1 / 1000)) (Fin (- (1 / 100)))
            (Fin (sqrt 252 / (2625 * sqrt (1 / 4000000))))) \<and>
   calculate_metrics [(1, Fin 1000), (2, Fin 1001), (3, Fin 1001)]
       [(1, Fin 100), (2, Fin 100), (3, Fin 110)] =
     Some (Fin (1 / 1000), Fin (- (1 / 100)), Fin (sqrt 252 / (2625 * sqrt (1 / 4000000)))) \<and>
   loop_body (session_window_only 1 3) 3 initial_state (''AAA'', Some 1, None) =
     loop_body example_session 3 initial_state (''AAA'', Some 1, None) \<and>
   (\<exists>r. merger_arbitrage_analysis_bloomberg (window_only (- 365) 0) 0 ''AAA'' (Fin 100) 73
          ''SPX Index'' = Inr r \<and>
        calculate_alpha_beta_sharpe [Fin 80, Fin 85, Fin 90] [Fin 1, Fin 1, Fin 2]
          (Fin (3 / 100)) = Inr (Alpha r, Beta r, Sharpe_Ratio r)) \<and>
   merger_arbitrage_analysis_bloomberg (window_only (- 365) 0) 0 ''AAA'' (Fin 100) 73
       ''SPX Index'' =
     merger_arbitrage_analysis_bloomberg example_bloomberg 0 ''AAA'' (Fin 100) 73 ''SPX Index''"
proof -
  obtain a b s where m:
    "calculate_alpha_beta_sharpe [Fin 80, Fin 85, Fin 90] [Fin 1, Fin 1, Fin 2]
       (Fin (3 / 100)) = Inr (a, b, s)"
    using example_metrics_AAA by auto
  show ?thesis
    using
      C9_fetch_windows [where blp = "session_window_only 1 3" and blp' = example_session
        and ticker = "''AAA''" and p = 1 and e = 3 and s = None and today = 3
        and st = initial_state and sdf = "[(1, Fin 1000), (2, Fin 1001), (3, Fin 1001)]"
        and mdf = "[(1, Fin 100), (2, Fin 100), (3, Fin 110)]"
        and gbd = "window_only (- 365) 0" and gbd' = example_bloomberg
        and target = "''AAA''" and market = "''SPX Index''" and day = 0
        and sdata = "[(''AAA'', [(1, Fin 80), (2, Fin 85), (3, Fin 90)])]"
        and mdata = "[(''SPX Index'', [(1, Fin 1), (2, Fin 1), (3, Fin 2)])]"
        and sdict = "[(1, Fin 80), (2, Fin 85), (3, Fin 90)]"
        and mdict = "[(1, Fin 1), (2, Fin 1), (3, Fin 2)]"
        and alpha = a and beta = b and sharpe = s and cur = 90 and deal = 100
        and dp = "Fin 100" and close = 73] m
    by (auto simp add: session_window_only_def window_only_def example_session_def
          example_bloomberg_def example_AAA_metrics) metis
qed

text \<open>
  Against C9 for the merger script: a provider that has prices for the holding window of
  the request only, from its purchase date to its sale date, makes the analysis fail, and a
  provider that has prices for the trailing year only makes it succeed.
\<close>

theorem C9_trailing_year_counterexample:
  "merger_arbitrage_from_excel
     (window_only (Buy_Date (example_deals ! 0)) (Sell_Date (example_deals ! 0))) 0
     [example_deals ! 0] ''SPX Index'' = Inl (Exception ''No data outside the window.'') \<and>
   \<not> isl (merger_arbitrage_from_excel (window_only (- 365) 0) 0 [example_deals ! 0] ''SPX Index'')"
proof -
  have same: "merger_arbitrage_analysis_bloomberg (window_only (- 365) 0) 0 ''AAA'' (Fin 100) 73 ''SPX Index'' =
     merger_arbitrage_analysis_bloomberg example_bloomberg 0 ''AAA'' (Fin 100) 73 ''SPX Index''"
    by (rule analysis_window) (simp_all add: window_only_def)
  obtain a b s where
    "merger_arbitrage_analysis_bloomberg example_bloomberg 0 ''AAA'' (Fin 100) 73 ''SPX Index'' =
      Inr \<lparr>Target = ''AAA'', Current_Target_Price = Fin 90, Deal_Price = Fin 100,
            Arbitrage_Spread = Fin 10,
            Annualized_Return = Some (Fin (10 / real_of_int 73 * 365)),
            Alpha = a, Beta = b, Sharpe_Ratio = s\<rparr>"
    using example_analysis_AAA [of 73] by auto
  with same have ok: "\<not> isl (merger_arbitrage_from_excel (window_only (- 365) 0) 0
      [example_deals ! 0] ''SPX Index'')"
    by (simp add: merger_arbitrage_from_excel_def example_deals_def)
  have "merger_arbitrage_analysis_bloomberg (window_only (- 30) 73) 0 ''AAA'' (Fin 100) 73 ''SPX Index'' =
      Inl (Exception ''No data outside the window.'')"
    by (simp add: merger_arbitrage_analysis_bloomberg_def window_only_def)
  then have "merger_arbitrage_from_excel
     (window_only (Buy_Date (example_deals ! 0)) (Sell_Date (example_deals ! 0))) 0
     [example_deals ! 0] ''SPX Index'' = Inl (Exception ''No data outside the window.'')"
    by (simp add: merger_arbitrage_from_excel_def example_deals_def)
  with ok show ?thesis by simp
qed

end
